theory Spec2Isabelle
  imports Complex_Main
begin

text \<open>
  The resolvers of the GraphQL server (\<open>src/schema.ts\<close>) and its authentication helper,
  as functions over an explicit database state. A resolver returns the outcome of its
  promise: \<open>Inr\<close> the value it resolves to (with \<open>None\<close> for null), \<open>Inl\<close> the error it
  rejects with. A mutation also returns the state of the database after it. The first
  parameter of the resolvers, \<open>parent\<close>, is not used by any of them and is left out.
\<close>

section \<open>JavaScript values used by the resolvers\<close>

text \<open>
  A JavaScript number is a double. The model keeps what the resolvers and the database
  client can tell apart: an integer of magnitude up to \<open>2 ^ 53\<close>, which a double holds
  exactly (\<open>Exact\<close>); the double next to a larger integer \<open>v\<close>, left unevaluated
  (\<open>Approx v\<close>; it may be an infinity); a double that is not an integer, the one next to
  the rational \<open>q\<close> (\<open>Fraction q\<close>); the two infinities written as such; and \<open>NaN\<close>.
  Minus zero is \<open>Exact 0\<close>: as a key it is zero.
\<close>

datatype number = Exact int | Approx int | Fraction rat | PlusInfinity | MinusInfinity | NaN

text \<open>
  What a rejected promise carries: a \<open>GraphQLError\<close> with its message, Prisma's
  \<open>PrismaClientKnownRequestError\<close> with its code and message, the error thrown by
  \<open>jsonwebtoken\<close>, or any other thrown value.
\<close>

datatype error =
    GraphQLError string
  | PrismaClientKnownRequestError string string
  | JsonWebTokenError string
  | OtherError string

subsection \<open>Strings\<close>

text \<open>The apostrophe that the template literals put around interpolated values.\<close>

definition apostrophe :: char where
  "apostrophe = CHR 0x27"

definition quoted :: "string \<Rightarrow> string" where
  "quoted s = apostrophe # s @ [apostrophe]"

text \<open>The sign U+1F6AB that starts two of the messages, as its UTF-8 bytes.\<close>

definition no_entry_sign :: string where
  "no_entry_sign = [CHR 0xF0, CHR 0x9F, CHR 0x9A, CHR 0xAB]"

definition isDigit :: "char \<Rightarrow> bool" where
  "isDigit c = (c \<in> set ''0123456789'')"

definition digitValue :: "char \<Rightarrow> int" where
  "digitValue c = int (of_char c) - 48"

definition digitChar :: "nat \<Rightarrow> char" where
  "digitChar d = char_of (48 + d)"

text \<open>\<open>String(n)\<close> for an integer \<open>n\<close>: decimal digits, a minus sign when negative.\<close>

fun natToString :: "nat \<Rightarrow> string" where
  "natToString n =
     (if n < 10 then [digitChar n] else natToString (n div 10) @ [digitChar (n mod 10)])"

declare natToString.simps [simp del]

definition toString :: "int \<Rightarrow> string" where
  "toString i = (if i < 0 then CHR ''-'' # natToString (nat (- i)) else natToString (nat i))"

subsection \<open>The regular expression of \<open>parseIntSafe\<close>\<close>

text \<open>
  The fragment of regular expressions that \<open>/^(\d+)$/\<close> uses: the two anchors and a
  greedy one-or-more repetition of a character class. The capture group does not change
  what matches. \<open>matchHere p atStart s\<close> matches the pattern at the current position, with
  \<open>s\<close> the rest of the input and \<open>atStart\<close> telling whether the position is index 0;
  \<open>test\<close> tries every start index, as \<open>RegExp.prototype.test\<close> does without flags.
\<close>

datatype charClass = Digit

datatype node = Caret | Dollar | Plus charClass

fun inClass :: "charClass \<Rightarrow> char \<Rightarrow> bool" where
  "inClass Digit c = isDigit c"

fun matchHere :: "node list \<Rightarrow> bool \<Rightarrow> string \<Rightarrow> bool" where
  "matchHere [] atStart s = True"
| "matchHere (Caret # p) atStart s = (atStart \<and> matchHere p atStart s)"
| "matchHere (Dollar # p) atStart s = (s = [] \<and> matchHere p atStart s)"
| "matchHere (Plus cls # p) atStart s =
     list_ex (\<lambda>k. matchHere p False (drop k s))
       (rev [1..<Suc (length (takeWhile (inClass cls) s))])"

definition test :: "node list \<Rightarrow> string \<Rightarrow> bool" where
  "test p s = list_ex (\<lambda>i. matchHere p (i = 0) (drop i s)) [0..<Suc (length s)]"

definition digitsOnly :: "node list" where
  "digitsOnly = [Caret, Plus Digit, Dollar]"

subsection \<open>\<open>parseInt(value, 10)\<close>\<close>

definition isWhiteSpace :: "char \<Rightarrow> bool" where
  "isWhiteSpace c = (c \<in> set [CHR 0x20, CHR 0x09, CHR 0x0A, CHR 0x0B, CHR 0x0C, CHR 0x0D])"

definition decimalValue :: "string \<Rightarrow> int" where
  "decimalValue ds = foldl (\<lambda>acc c. 10 * acc + digitValue c) 0 ds"

definition toNumber :: "int \<Rightarrow> number" where
  "toNumber v = (if \<bar>v\<bar> \<le> 2 ^ 53 then Exact v else Approx v)"

text \<open>
  \<open>parseInt\<close> with radix 10: leading white space is dropped, a sign is read, and the
  longest prefix of decimal digits is the value; without a digit the result is NaN.
  (Only the ASCII white space characters are listed; \<open>parseIntSafe\<close> calls \<open>parseInt\<close> on
  digits only.)
\<close>

definition parseInt10 :: "string \<Rightarrow> number" where
  "parseInt10 s =
     (let t = dropWhile isWhiteSpace s;
          neg = (t \<noteq> [] \<and> hd t = CHR ''-'');
          u = (if t \<noteq> [] \<and> (hd t = CHR ''+'' \<or> hd t = CHR ''-'') then tl t else t);
          z = takeWhile isDigit u
      in if z = [] then NaN
         else toNumber (if neg then - decimalValue z else decimalValue z))"

definition parseIntSafe :: "string \<Rightarrow> number option" where
  "parseIntSafe v = (if test digitsOnly v then Some (parseInt10 v) else None)"

text \<open>
  The characters that \<open>StrWhiteSpaceChar\<close> covers (white space and line terminators), each
  as its UTF-8 bytes: TAB, LF, VT, FF, CR, space, U+00A0, U+1680, U+2000 to U+200A, U+2028,
  U+2029, U+202F, U+205F, U+3000 and U+FEFF.
\<close>

definition strWhiteSpaceChars :: "string list" where
  "strWhiteSpaceChars =
     [[CHR 0x09], [CHR 0x0A], [CHR 0x0B], [CHR 0x0C], [CHR 0x0D], [CHR 0x20],
      [CHR 0xC2, CHR 0xA0], [CHR 0xE1, CHR 0x9A, CHR 0x80],
      [CHR 0xE2, CHR 0x80, CHR 0x80], [CHR 0xE2, CHR 0x80, CHR 0x81],
      [CHR 0xE2, CHR 0x80, CHR 0x82], [CHR 0xE2, CHR 0x80, CHR 0x83],
      [CHR 0xE2, CHR 0x80, CHR 0x84], [CHR 0xE2, CHR 0x80, CHR 0x85],
      [CHR 0xE2, CHR 0x80, CHR 0x86], [CHR 0xE2, CHR 0x80, CHR 0x87],
      [CHR 0xE2, CHR 0x80, CHR 0x88], [CHR 0xE2, CHR 0x80, CHR 0x89],
      [CHR 0xE2, CHR 0x80, CHR 0x8A], [CHR 0xE2, CHR 0x80, CHR 0xA8],
      [CHR 0xE2, CHR 0x80, CHR 0xA9], [CHR 0xE2, CHR 0x80, CHR 0xAF],
      [CHR 0xE2, CHR 0x81, CHR 0x9F], [CHR 0xE3, CHR 0x80, CHR 0x80],
      [CHR 0xEF, CHR 0xBB, CHR 0xBF]]"

text \<open>Dropping every leading occurrence of one of the given byte sequences.\<close>

function trimStart :: "string list \<Rightarrow> string \<Rightarrow> string" where
  "trimStart ws s =
     (case find (\<lambda>w. w \<noteq> [] \<and> take (length w) s = w) ws of
        None \<Rightarrow> s
      | Some w \<Rightarrow> trimStart ws (drop (length w) s))"
  by pat_completeness auto
termination
proof (relation "measure (\<lambda>(ws, s). length s)")
  show "wf (measure (\<lambda>(ws, s). length s))" by simp
next
  fix ws :: "string list" and s w :: string
  assume "find (\<lambda>w. w \<noteq> [] \<and> take (length w) s = w) ws = Some w"
  then have w: "w \<noteq> []" "take (length w) s = w"
    by (auto simp: find_Some_iff)
  have "length (take (length w) s) \<le> length s"
    by simp
  then have "length w \<le> length s"
    unfolding w(2) .
  with w(1) show "((ws, drop (length w) s), (ws, s)) \<in> measure (\<lambda>(ws, s). length s)"
    by (cases w) auto
qed

declare trimStart.simps [simp del]

definition trim :: "string \<Rightarrow> string" where
  "trim s = rev (trimStart (map rev strWhiteSpaceChars) (rev (trimStart strWhiteSpaceChars s)))"

text \<open>
  \<open>NonDecimalIntegerLiteral\<close>: \<open>0b\<close>, \<open>0o\<close> or \<open>0x\<close> (in either case) and one or more digits
  of that radix, with no sign.
\<close>

definition hexDigitValue :: "char \<Rightarrow> int" where
  "hexDigitValue c =
     (if isDigit c then digitValue c
      else if c \<in> set ''abcdef'' then int (of_char c) - 87
      else int (of_char c) - 55)"

definition radixValue :: "int \<Rightarrow> string \<Rightarrow> int" where
  "radixValue r ds = foldl (\<lambda>acc c. r * acc + hexDigitValue c) 0 ds"

definition nonDecimalIntegerLiteral :: "string \<Rightarrow> int option" where
  "nonDecimalIntegerLiteral t =
     (case t of
        c0 # x # ds \<Rightarrow>
          if c0 = CHR ''0'' \<and> ds \<noteq> [] then
            (if x \<in> set ''bB'' \<and> list_all (\<lambda>c. c \<in> set ''01'') ds
               then Some (radixValue 2 ds)
             else if x \<in> set ''oO'' \<and> list_all (\<lambda>c. c \<in> set ''01234567'') ds
               then Some (radixValue 8 ds)
             else if x \<in> set ''xX'' \<and> list_all (\<lambda>c. c \<in> set ''0123456789abcdefABCDEF'') ds
               then Some (radixValue 16 ds)
             else None)
          else None
      | _ \<Rightarrow> None)"

text \<open>
  \<open>StrUnsignedDecimalLiteral\<close> other than \<open>Infinity\<close>: digits, an optional point with
  optional digits after it (at least one digit in all), and an optional exponent; its
  value is the rational it denotes. \<open>exponentPart\<close> reads what follows the digits: nothing,
  or \<open>e\<close> or \<open>E\<close>, an optional sign and one or more digits up to the end.
\<close>

definition exponentPart :: "string \<Rightarrow> int option" where
  "exponentPart r =
     (case r of
        [] \<Rightarrow> Some 0
      | c # r' \<Rightarrow>
          if c = CHR ''e'' \<or> c = CHR ''E'' then
            (let neg = (r' \<noteq> [] \<and> hd r' = CHR ''-'');
                 d = (if r' \<noteq> [] \<and> (hd r' = CHR ''+'' \<or> hd r' = CHR ''-'') then tl r' else r')
             in if d \<noteq> [] \<and> list_all isDigit d
                then Some (if neg then - decimalValue d else decimalValue d) else None)
          else None)"

definition pow10 :: "int \<Rightarrow> rat" where
  "pow10 x = (if 0 \<le> x then 10 ^ nat x else 1 / 10 ^ nat (- x))"

definition strUnsignedDecimalLiteral :: "string \<Rightarrow> rat option" where
  "strUnsignedDecimalLiteral u =
     (let ip = takeWhile isDigit u;
          r1 = dropWhile isDigit u;
          dot = (r1 \<noteq> [] \<and> hd r1 = CHR ''.'');
          fp = (if dot then takeWhile isDigit (tl r1) else []);
          r2 = (if dot then dropWhile isDigit (tl r1) else r1)
      in if ip = [] \<and> fp = [] then None
         else (case exponentPart r2 of
                 None \<Rightarrow> None
               | Some x \<Rightarrow> Some (of_int (decimalValue (ip @ fp)) * pow10 (x - int (length fp)))))"

text \<open>
  The double next to a rational \<open>q\<close>, rounding to nearest with ties to even. An integer
  is handled by \<open>toNumber\<close>. From \<open>2 ^ 52\<close> on every double is an integer. Below, the
  doubles around an integer \<open>k\<close> with \<open>2 ^ e \<le> k < 2 ^ (e + 1)\<close> are \<open>2 ^ (e - 52)\<close> apart above
  \<open>k\<close> and below it (half of that below a power of two), \<open>k\<close> has an even significand, and
  so \<open>q\<close> rounds to \<open>k\<close> exactly when it is within half that distance of \<open>k\<close>; the doubles
  next to zero are \<open>2 ^ -1074\<close> apart. Any other \<open>q\<close> rounds to a double that is not an
  integer.
\<close>

fun floorLog2 :: "nat \<Rightarrow> nat" where
  "floorLog2 k = (if k < 2 then 0 else Suc (floorLog2 (k div 2)))"

declare floorLog2.simps [simp del]

definition roundHalfEven :: "rat \<Rightarrow> int" where
  "roundHalfEven a =
     (let m = \<lfloor>a\<rfloor>; f = a - of_int m
      in if f < 1 / 2 then m else if 1 / 2 < f then m + 1 else if even m then m else m + 1)"

definition roundToDouble :: "rat \<Rightarrow> number" where
  "roundToDouble q =
     (let a = \<bar>q\<bar>; sg = (if q < 0 then - 1 else 1) in
      if a = of_int \<lfloor>a\<rfloor> then toNumber \<lfloor>q\<rfloor>
      else if 2 ^ 53 \<le> a then Approx \<lfloor>q\<rfloor>
      else if 2 ^ 52 \<le> a then Exact (sg * roundHalfEven a)
      else
        (let k = \<lfloor>a + 1 / 2\<rfloor> in
         if k = 0 then (if a \<le> 1 / 2 ^ 1075 then Exact 0 else Fraction q)
         else
           (let e = floorLog2 (nat k);
                above = 2 ^ e / 2 ^ 53;
                below = (if k = 2 ^ e then 2 ^ e / 2 ^ 54 else 2 ^ e / 2 ^ 53)
            in if (of_int k \<le> a \<and> a - of_int k \<le> above) \<or> (a < of_int k \<and> of_int k - a \<le> below)
               then Exact (sg * k) else Fraction q)))"

text \<open>\<open>StrDecimalLiteral\<close>: an optional sign and \<open>Infinity\<close> or an unsigned literal.\<close>

definition strDecimalLiteral :: "string \<Rightarrow> number" where
  "strDecimalLiteral t =
     (let neg = (t \<noteq> [] \<and> hd t = CHR ''-'');
          u = (if t \<noteq> [] \<and> (hd t = CHR ''+'' \<or> hd t = CHR ''-'') then tl t else t)
      in if u = ''Infinity'' then (if neg then MinusInfinity else PlusInfinity)
         else (case strUnsignedDecimalLiteral u of
                 None \<Rightarrow> NaN
               | Some q \<Rightarrow> roundToDouble (if neg then - q else q)))"

text \<open>
  \<open>Number(s)\<close> for a string \<open>s\<close> (\<open>StringToNumber\<close>): white space is trimmed at both ends;
  the empty string is 0; a literal is converted to its double; anything else is NaN.
\<close>

definition Number :: "string \<Rightarrow> number" where
  "Number s =
     (let t = trim s in
      if t = [] then Exact 0
      else (case nonDecimalIntegerLiteral t of
              Some v \<Rightarrow> toNumber v
            | None \<Rightarrow> strDecimalLiteral t))"

section \<open>The data model of \<open>prisma/schema.prisma\<close>\<close>

record Link =
  Link_id :: int
  Link_createdAt :: nat
  Link_description :: string
  Link_url :: string
  Link_postedById :: "int option"

record Comment =
  Comment_id :: int
  Comment_body :: string
  Comment_linkId :: "int option"

record User =
  User_id :: int
  User_name :: string
  User_email :: string
  User_password :: string

section \<open>The database client\<close>

text \<open>
  The \<open>where\<close> argument that \<open>linkFeed\<close> builds: the empty object, or the disjunction
  "description contains the needle or url contains the needle".
\<close>

datatype LinkWhere = NoFilter | DescriptionOrUrlContains string

text \<open>
  A value that may be \<open>undefined\<close> or \<open>null\<close>.
\<close>

datatype 'a nullable = Undefined | Null | Defined 'a

text \<open>
  The part of \<open>PrismaClient\<close> that the resolvers call, over a database state \<open>'db\<close>.
  Every call may reject with an error (\<open>Inl\<close>). The \<open>find\<close> calls are queries and leave
  the state as it is; \<open>create\<close>, \<open>delete\<close> and \<open>update\<close> return the new state. The
  resolvers are defined for every such client.
\<close>

record 'db PrismaClient =
  link_findMany :: "LinkWhere \<Rightarrow> int \<Rightarrow> int \<Rightarrow> 'db \<Rightarrow> error + Link list"
  link_findUnique :: "number \<Rightarrow> 'db \<Rightarrow> error + Link option"
  link_create :: "string \<Rightarrow> string \<Rightarrow> 'db \<Rightarrow> (error + Link) \<times> 'db"
  link_delete :: "number \<Rightarrow> 'db \<Rightarrow> (error + Link) \<times> 'db"
  comment_findUnique :: "number \<Rightarrow> 'db \<Rightarrow> error + Comment option"
  comment_create :: "string \<Rightarrow> number \<Rightarrow> 'db \<Rightarrow> (error + Comment) \<times> 'db"
  comment_delete :: "number \<Rightarrow> 'db \<Rightarrow> (error + Comment) \<times> 'db"
  comment_update :: "number \<Rightarrow> string \<Rightarrow> 'db \<Rightarrow> (error + Comment) \<times> 'db"
  user_findUnique :: "number nullable \<Rightarrow> 'db \<Rightarrow> error + User option"

record 'db GraphQLContext =
  prisma :: "'db PrismaClient"
  currentUser :: "User option"

section \<open>Query resolvers\<close>

definition applyTakeConstraints :: "int \<Rightarrow> int \<Rightarrow> int \<Rightarrow> error + int" where
  "applyTakeConstraints lo hi v =
     (if v < lo \<or> v > hi then
        Inl (GraphQLError
          (quoted ''take'' @ '' argument value '' @ quoted (toString v)
            @ '' is outside the valud range of '' @ toString lo @ '' to '' @ toString hi))
      else Inr v)"

definition applySkipConstraints :: "int \<Rightarrow> int \<Rightarrow> int \<Rightarrow> error + int" where
  "applySkipConstraints lo hi v =
     (if v < lo \<or> v > hi then
        Inl (GraphQLError
          (quoted ''skip'' @ '' argument value '' @ quoted (toString v)
            @ '' is outside the valud range of '' @ toString lo @ '' to '' @ toString hi))
      else Inr v)"

text \<open>
  The arguments of \<open>linkFeed\<close>; \<open>None\<close> is an argument that was left out or passed as
  null. The GraphQL type \<open>Int\<close> makes \<open>take\<close> and \<open>skip\<close> integers.
\<close>

record linkFeedArgs =
  filterNeedle :: "string option"
  skipArg :: "int option"
  takeArg :: "int option"

definition linkFeedWhere :: "linkFeedArgs \<Rightarrow> LinkWhere" where
  "linkFeedWhere args =
     (case filterNeedle args of
        None \<Rightarrow> NoFilter
      | Some needle \<Rightarrow> if needle \<noteq> [] then DescriptionOrUrlContains needle else NoFilter)"

text \<open>The operator \<open>??\<close>: the right operand when the left one is null or undefined.\<close>

definition nullish :: "'a option \<Rightarrow> 'a \<Rightarrow> 'a" where
  "nullish v d = (case v of None \<Rightarrow> d | Some x \<Rightarrow> x)"

definition linkFeed :: "'db GraphQLContext \<Rightarrow> linkFeedArgs \<Rightarrow> 'db \<Rightarrow> error + Link list" where
  "linkFeed ctx args db =
     (case applyTakeConstraints 1 50 (nullish (takeArg args) 30) of
        Inl err \<Rightarrow> Inl err
      | Inr tk \<Rightarrow>
          (case applySkipConstraints 0 50 (nullish (skipArg args) 0) of
             Inl err \<Rightarrow> Inl err
           | Inr sk \<Rightarrow> link_findMany (prisma ctx) (linkFeedWhere args) tk sk db))"

definition linkComments :: "'db GraphQLContext \<Rightarrow> string \<Rightarrow> 'db \<Rightarrow> error + Link option" where
  "linkComments ctx linkId db = link_findUnique (prisma ctx) (Number linkId) db"

definition comment :: "'db GraphQLContext \<Rightarrow> string \<Rightarrow> 'db \<Rightarrow> error + Comment option" where
  "comment ctx commentId db = comment_findUnique (prisma ctx) (Number commentId) db"

text \<open>
  The type \<open>Query\<close> of \<open>typeDefs\<close> declares four fields: \<open>linkFeed\<close>, \<open>link\<close>, \<open>comment\<close>
  and \<open>linkComments\<close>. The map \<open>resolvers.Query\<close> has the three entries above and none
  for \<open>link\<close>. For a field without an entry the executor uses its default resolver,
  which reads the property of that name from the root value; the server is created
  without a root value, so the field resolves to null.
\<close>

datatype QueryField =
    Field_linkFeed linkFeedArgs
  | Field_link string
  | Field_comment string
  | Field_linkComments string

datatype QueryResult =
    LinkList "Link list"
  | LinkOrNull "Link option"
  | CommentOrNull "Comment option"

definition executeQuery ::
  "'db GraphQLContext \<Rightarrow> QueryField \<Rightarrow> 'db \<Rightarrow> error + QueryResult" where
  "executeQuery ctx field db =
     (case field of
        Field_linkFeed args \<Rightarrow> map_sum (\<lambda>e. e) LinkList (linkFeed ctx args db)
      | Field_link linkId \<Rightarrow> Inr (LinkOrNull None)
      | Field_comment commentId \<Rightarrow> map_sum (\<lambda>e. e) CommentOrNull (comment ctx commentId db)
      | Field_linkComments linkId \<Rightarrow>
          map_sum (\<lambda>e. e) LinkOrNull (linkComments ctx linkId db))"

section \<open>Mutation resolvers\<close>

definition postLink ::
  "'db GraphQLContext \<Rightarrow> string \<Rightarrow> string \<Rightarrow> 'db \<Rightarrow> (error + Link) \<times> 'db" where
  "postLink ctx description url db =
     (if description = [] \<or> url = [] then
        (Inl (GraphQLError (no_entry_sign @ '' All fields are required.'')), db)
      else link_create (prisma ctx) description url db)"

text \<open>
  The callback that each mutation passes to \<open>.catch\<close>: an error that is a
  \<open>PrismaClientKnownRequestError\<close> with code \<open>P2003\<close> is replaced by a \<open>GraphQLError\<close>
  with the mutation's own message; any other error is rejected again as it is.
\<close>

fun catchP2003 :: "string \<Rightarrow> error \<Rightarrow> error" where
  "catchP2003 message (PrismaClientKnownRequestError code m) =
     (if code = ''P2003'' then GraphQLError message else PrismaClientKnownRequestError code m)"
| "catchP2003 message err = err"

definition deleteLink ::
  "'db GraphQLContext \<Rightarrow> string \<Rightarrow> 'db \<Rightarrow> (error + Link) \<times> 'db" where
  "deleteLink ctx ident db =
     (case parseIntSafe ident of
        None \<Rightarrow>
          (Inl (GraphQLError (''Cannot delete non-existing link with id '' @ quoted ident @ ''.'')),
           db)
      | Some safeID \<Rightarrow>
          (case link_findUnique (prisma ctx) safeID db of
             Inl err \<Rightarrow> (Inl err, db)
           | Inr None \<Rightarrow>
               (Inl (GraphQLError (''Link with ID: '' @ quoted ident @ '' does not exist.'')), db)
           | Inr (Some linkToDelete) \<Rightarrow>
               (case link_delete (prisma ctx) safeID db of
                  (Inl err, db') \<Rightarrow>
                    (Inl (catchP2003
                       (''Cannot delete non-existing link with id '' @ quoted ident @ ''.'') err),
                     db')
                | (Inr deletedLink, db') \<Rightarrow> (Inr deletedLink, db'))))"

definition postCommentOnLink ::
  "'db GraphQLContext \<Rightarrow> string \<Rightarrow> string \<Rightarrow> 'db \<Rightarrow> (error + Comment) \<times> 'db" where
  "postCommentOnLink ctx linkId body db =
     (case parseIntSafe linkId of
        None \<Rightarrow>
          (Inl (GraphQLError
             (''Cannot post comment on non-existing link with id '' @ quoted linkId @ ''.'')),
           db)
      | Some safeID \<Rightarrow>
          (case link_findUnique (prisma ctx) safeID db of
             Inl err \<Rightarrow> (Inl err, db)
           | Inr None \<Rightarrow>
               (Inl (GraphQLError (''Link with ID: '' @ quoted linkId @ '' does not exist.'')), db)
           | Inr (Some linkToPostCommentOn) \<Rightarrow>
               if body = [] then
                 (Inl (GraphQLError (no_entry_sign @ '' Body is a required field'')), db)
               else
                 (case comment_create (prisma ctx) body safeID db of
                    (Inl err, db') \<Rightarrow>
                      (Inl (catchP2003
                         (''Cannot post comment on non-existing link with id ''
                            @ quoted linkId @ ''.'') err),
                       db')
                  | (Inr newComment, db') \<Rightarrow> (Inr newComment, db'))))"

definition deleteCommentOnLink ::
  "'db GraphQLContext \<Rightarrow> string \<Rightarrow> 'db \<Rightarrow> (error + Comment) \<times> 'db" where
  "deleteCommentOnLink ctx commentId db =
     (case parseIntSafe commentId of
        None \<Rightarrow>
          (Inl (GraphQLError
             (''Cannot delete non-existing comment with id '' @ quoted commentId @ ''.'')),
           db)
      | Some safeID \<Rightarrow>
          (case comment_findUnique (prisma ctx) safeID db of
             Inl err \<Rightarrow> (Inl err, db)
           | Inr None \<Rightarrow>
               (Inl (GraphQLError
                  (''Comment with ID: '' @ quoted commentId @ '' does not exist.'')),
                db)
           | Inr (Some commentToDelete) \<Rightarrow>
               (case comment_delete (prisma ctx) safeID db of
                  (Inl err, db') \<Rightarrow>
                    (Inl (catchP2003
                       (''Cannot delete a non-existing comment with id ''
                          @ quoted commentId @ ''.'') err),
                     db')
                | (Inr deletedComment, db') \<Rightarrow> (Inr deletedComment, db'))))"

definition updateCommentOnLink ::
  "'db GraphQLContext \<Rightarrow> string \<Rightarrow> string \<Rightarrow> 'db \<Rightarrow> (error + Comment) \<times> 'db" where
  "updateCommentOnLink ctx commentId body db =
     (case parseIntSafe commentId of
        None \<Rightarrow>
          (Inl (GraphQLError
             (''Cannot delete non-existing comment with id '' @ quoted commentId @ ''.'')),
           db)
      | Some safeID \<Rightarrow>
          (case comment_findUnique (prisma ctx) safeID db of
             Inl err \<Rightarrow> (Inl err, db)
           | Inr None \<Rightarrow>
               (Inl (GraphQLError
                  (''Comment with ID: '' @ quoted commentId @ '' does not exist.'')),
                db)
           | Inr (Some commentToDelete) \<Rightarrow>
               (case comment_update (prisma ctx) safeID body db of
                  (Inl err, db') \<Rightarrow>
                    (Inl (catchP2003
                       (''Cannot post comment on non-existing link with id ''
                          @ quoted commentId @ ''.'') err),
                     db')
                | (Inr updatedComment, db') \<Rightarrow> (Inr updatedComment, db'))))"

section \<open>The authentication helper\<close>

record Headers =
  authorization :: "string nullable"
  host :: "string nullable"

record FastifyRequest =
  headers :: Headers

record JwtPayload =
  userId :: "number nullable"

definition APP_SECRET :: string where
  "APP_SECRET = ''testing secret, use env''"

text \<open>\<open>s.split(sep)\<close> for a separator of one character.\<close>

fun split :: "char \<Rightarrow> string \<Rightarrow> string list" where
  "split sep [] = [[]]"
| "split sep (c # cs) =
     (if c = sep then [] # split sep cs
      else (case split sep cs of [] \<Rightarrow> [[c]] | w # ws \<Rightarrow> (c # w) # ws))"

text \<open>Reading an array at an index: \<open>undefined\<close> beyond its end.\<close>

definition index :: "'a list \<Rightarrow> nat \<Rightarrow> 'a nullable" where
  "index xs i = (if i < length xs then Defined (xs ! i) else Undefined)"

text \<open>
  \<open>authenticateUser\<close> as the server built on Fastify has it. \<open>verify\<close> is the function of
  \<open>jsonwebtoken\<close>, a parameter here: it returns the payload of a token or throws. The
  optional chain \<open>header?.split(' ')[1]\<close> is \<open>undefined\<close> when the header is \<open>undefined\<close>
  or \<open>null\<close>. The line that logs the host header has no effect on the result.
\<close>

definition authenticateUser ::
  "(string \<Rightarrow> string \<Rightarrow> error + JwtPayload) \<Rightarrow> 'db PrismaClient \<Rightarrow> FastifyRequest \<Rightarrow> 'db
     \<Rightarrow> error + User option" where
  "authenticateUser verify client request db =
     (let header = authorization (headers request) in
      if header \<noteq> Null then
        (let token = (case header of Defined h \<Rightarrow> index (split CHR '' '' h) 1 | _ \<Rightarrow> Undefined) in
         if token = Undefined \<or> token = Null \<or> token = Defined [] then Inr None
         else
           (case verify (case token of Defined t \<Rightarrow> t | _ \<Rightarrow> []) APP_SECRET of
              Inl err \<Rightarrow> Inl err
            | Inr tokenPayload \<Rightarrow> user_findUnique client (userId tokenPayload) db))
      else Inr None)"

text \<open>
  \<open>authenticateUser\<close> as the server built on \<open>http.createServer\<close> has it: the body is
  commented out and every request is anonymous.
\<close>

definition authenticateUser_stub ::
  "'db PrismaClient \<Rightarrow> FastifyRequest \<Rightarrow> 'db \<Rightarrow> error + User option" where
  "authenticateUser_stub client request db = Inr None"

section \<open>An in-memory database client\<close>

text \<open>
  A client over tables held in memory, following \<open>prisma/schema.prisma\<close>: ids are drawn
  from a sequence per table, a Comment can only be created on an existing Link (error
  \<open>P2003\<close> otherwise), deleting a Link deletes its Comments (\<open>onDelete: Cascade\<close>), and
  deleting or updating a missing row is error \<open>P2025\<close>. A key has to be an integer, as the
  column type \<open>Int\<close> of every id asks: like the Prisma client, which checks the arguments of
  a query against the types of the schema before it runs it, this client rejects NaN, a
  fraction, an infinity and an integer beyond \<open>2 ^ 53\<close> with a validation error
  (\<open>invalidKey\<close>). The resolvers do not depend on it; it serves to run them on concrete
  data.
\<close>

record Database =
  links :: "Link list"
  comments :: "Comment list"
  users :: "User list"
  nextLinkId :: int
  nextCommentId :: int
  clock :: nat

definition invalidKey :: error where
  "invalidKey = OtherError ''PrismaClientValidationError''"

definition recordNotFound :: error where
  "recordNotFound = PrismaClientKnownRequestError ''P2025'' ''Record not found''"

definition foreignKeyFailed :: error where
  "foreignKeyFailed = PrismaClientKnownRequestError ''P2003'' ''Foreign key constraint failed''"

fun contains :: "string \<Rightarrow> string \<Rightarrow> bool" where
  "contains [] needle = (needle = [])"
| "contains (c # cs) needle = (take (length needle) (c # cs) = needle \<or> contains cs needle)"

fun satisfies :: "LinkWhere \<Rightarrow> Link \<Rightarrow> bool" where
  "satisfies NoFilter l = True"
| "satisfies (DescriptionOrUrlContains needle) l =
     (contains (Link_description l) needle \<or> contains (Link_url l) needle)"

definition mem_link_findMany :: "LinkWhere \<Rightarrow> int \<Rightarrow> int \<Rightarrow> Database \<Rightarrow> error + Link list" where
  "mem_link_findMany w tk sk db = Inr (take (nat tk) (drop (nat sk) (filter (satisfies w) (links db))))"

fun mem_link_findUnique :: "number \<Rightarrow> Database \<Rightarrow> error + Link option" where
  "mem_link_findUnique (Exact n) db = Inr (find (\<lambda>l. Link_id l = n) (links db))"
| "mem_link_findUnique k db = Inl invalidKey"

definition mem_link_create :: "string \<Rightarrow> string \<Rightarrow> Database \<Rightarrow> (error + Link) \<times> Database" where
  "mem_link_create d u db =
     (let l = \<lparr>Link_id = nextLinkId db, Link_createdAt = clock db, Link_description = d,
                Link_url = u, Link_postedById = None\<rparr>
      in (Inr l, db\<lparr>links := links db @ [l], nextLinkId := nextLinkId db + 1,
                     clock := clock db + 1\<rparr>))"

fun mem_link_delete :: "number \<Rightarrow> Database \<Rightarrow> (error + Link) \<times> Database" where
  "mem_link_delete (Exact n) db =
     (case find (\<lambda>l. Link_id l = n) (links db) of
        None \<Rightarrow> (Inl recordNotFound, db)
      | Some l \<Rightarrow>
          (Inr l, db\<lparr>links := filter (\<lambda>l. Link_id l \<noteq> n) (links db),
                      comments := filter (\<lambda>c. Comment_linkId c \<noteq> Some n) (comments db)\<rparr>))"
| "mem_link_delete k db = (Inl invalidKey, db)"

fun mem_comment_findUnique :: "number \<Rightarrow> Database \<Rightarrow> error + Comment option" where
  "mem_comment_findUnique (Exact n) db = Inr (find (\<lambda>c. Comment_id c = n) (comments db))"
| "mem_comment_findUnique k db = Inl invalidKey"

fun mem_comment_create :: "string \<Rightarrow> number \<Rightarrow> Database \<Rightarrow> (error + Comment) \<times> Database" where
  "mem_comment_create b (Exact n) db =
     (case find (\<lambda>l. Link_id l = n) (links db) of
        None \<Rightarrow> (Inl foreignKeyFailed, db)
      | Some l \<Rightarrow>
          (let c = \<lparr>Comment_id = nextCommentId db, Comment_body = b, Comment_linkId = Some n\<rparr>
           in (Inr c, db\<lparr>comments := comments db @ [c],
                          nextCommentId := nextCommentId db + 1\<rparr>)))"
| "mem_comment_create b k db = (Inl invalidKey, db)"

fun mem_comment_delete :: "number \<Rightarrow> Database \<Rightarrow> (error + Comment) \<times> Database" where
  "mem_comment_delete (Exact n) db =
     (case find (\<lambda>c. Comment_id c = n) (comments db) of
        None \<Rightarrow> (Inl recordNotFound, db)
      | Some c \<Rightarrow> (Inr c, db\<lparr>comments := filter (\<lambda>c. Comment_id c \<noteq> n) (comments db)\<rparr>))"
| "mem_comment_delete k db = (Inl invalidKey, db)"

fun mem_comment_update :: "number \<Rightarrow> string \<Rightarrow> Database \<Rightarrow> (error + Comment) \<times> Database" where
  "mem_comment_update (Exact n) b db =
     (case find (\<lambda>c. Comment_id c = n) (comments db) of
        None \<Rightarrow> (Inl recordNotFound, db)
      | Some c \<Rightarrow>
          (Inr (c\<lparr>Comment_body := b\<rparr>),
           db\<lparr>comments :=
                map (\<lambda>c. if Comment_id c = n then c\<lparr>Comment_body := b\<rparr> else c) (comments db)\<rparr>))"
| "mem_comment_update k b db = (Inl invalidKey, db)"

fun mem_user_findUnique :: "number nullable \<Rightarrow> Database \<Rightarrow> error + User option" where
  "mem_user_findUnique (Defined (Exact n)) db = Inr (find (\<lambda>u. User_id u = n) (users db))"
| "mem_user_findUnique k db = Inl invalidKey"

definition prisma_mem :: "Database PrismaClient" where
  "prisma_mem =
     \<lparr>link_findMany = mem_link_findMany, link_findUnique = mem_link_findUnique,
      link_create = mem_link_create, link_delete = mem_link_delete,
      comment_findUnique = mem_comment_findUnique, comment_create = mem_comment_create,
      comment_delete = mem_comment_delete, comment_update = mem_comment_update,
      user_findUnique = mem_user_findUnique\<rparr>"

text \<open>
  The same client with its writes failing: \<open>delete\<close>, \<open>create\<close> and \<open>update\<close> reject with
  the given error and change nothing.
\<close>

definition prisma_failing :: "error \<Rightarrow> Database PrismaClient" where
  "prisma_failing e =
     prisma_mem\<lparr>link_create := (\<lambda>d u db. (Inl e, db)), link_delete := (\<lambda>k db. (Inl e, db)),
                comment_create := (\<lambda>b k db. (Inl e, db)),
                comment_delete := (\<lambda>k db. (Inl e, db)),
                comment_update := (\<lambda>k b db. (Inl e, db))\<rparr>"

definition mem_context :: "Database GraphQLContext" where
  "mem_context = \<lparr>prisma = prisma_mem, currentUser = None\<rparr>"

definition failing_context :: "error \<Rightarrow> Database GraphQLContext" where
  "failing_context e = \<lparr>prisma = prisma_failing e, currentUser = None\<rparr>"

text \<open>A database with two links; the first has two comments.\<close>

definition link1 :: Link where
  "link1 = \<lparr>Link_id = 1, Link_createdAt = 0, Link_description = ''first'',
            Link_url = ''http://a'', Link_postedById = None\<rparr>"

definition link2 :: Link where
  "link2 = \<lparr>Link_id = 2, Link_createdAt = 1, Link_description = ''second'',
            Link_url = ''http://b'', Link_postedById = None\<rparr>"

definition comment1 :: Comment where
  "comment1 = \<lparr>Comment_id = 1, Comment_body = ''nice'', Comment_linkId = Some 1\<rparr>"

definition comment2 :: Comment where
  "comment2 = \<lparr>Comment_id = 2, Comment_body = ''thanks'', Comment_linkId = Some 1\<rparr>"

definition db0 :: Database where
  "db0 = \<lparr>links = [link1, link2], comments = [comment1, comment2], users = [],
          nextLinkId = 3, nextCommentId = 3, clock = 2\<rparr>"

text \<open>
  Two stand-ins for \<open>verify\<close>: one rejects every token, as \<open>jsonwebtoken\<close> does for a token
  whose signature does not match the secret; one accepts every token as user 1.
\<close>

definition verify_rejecting :: "string \<Rightarrow> string \<Rightarrow> error + JwtPayload" where
  "verify_rejecting token secret = Inl (JsonWebTokenError ''invalid signature'')"

definition verify_accepting :: "string \<Rightarrow> string \<Rightarrow> error + JwtPayload" where
  "verify_accepting token secret = Inr \<lparr>userId = Defined (Exact 1)\<rparr>"

definition user1 :: User where
  "user1 = \<lparr>User_id = 1, User_name = ''ada'', User_email = ''ada@example.org'',
            User_password = ''secret''\<rparr>"

definition db1 :: Database where
  "db1 = db0\<lparr>users := [user1]\<rparr>"

definition requestWith :: "string nullable \<Rightarrow> FastifyRequest" where
  "requestWith h = \<lparr>headers = \<lparr>authorization = h, host = Defined ''localhost:4000''\<rparr>\<rparr>"

section \<open>Properties of \<open>parseIntSafe\<close>\<close>

lemma inClass_Digit: "inClass Digit = isDigit"
  by (rule ext) simp

lemma matchHere_digitsOnly_start:
  "matchHere digitsOnly True s \<longleftrightarrow> s \<noteq> [] \<and> (\<forall>c\<in>set s. isDigit c)"
proof -
  let ?n = "length (takeWhile isDigit s)"
  have n_le: "?n \<le> length s" by (rule length_takeWhile_le)
  have "matchHere digitsOnly True s \<longleftrightarrow> (\<exists>k\<in>set [1..<Suc ?n]. drop k s = [])"
    by (simp add: digitsOnly_def list_ex_iff inClass_Digit)
  also have "\<dots> \<longleftrightarrow> (\<exists>k. 1 \<le> k \<and> k \<le> ?n \<and> length s \<le> k)"
    by auto
  also have "\<dots> \<longleftrightarrow> s \<noteq> [] \<and> ?n = length s"
  proof
    assume "\<exists>k. 1 \<le> k \<and> k \<le> ?n \<and> length s \<le> k"
    then obtain k where k: "1 \<le> k" "k \<le> ?n" "length s \<le> k" by blast
    with n_le show "s \<noteq> [] \<and> ?n = length s" by auto
  next
    assume a: "s \<noteq> [] \<and> ?n = length s"
    then have "1 \<le> length s \<and> length s \<le> ?n \<and> length s \<le> length s"
      by (cases s) auto
    then show "\<exists>k. 1 \<le> k \<and> k \<le> ?n \<and> length s \<le> k" by blast
  qed
  also have "?n = length s \<longleftrightarrow> (\<forall>c\<in>set s. isDigit c)"
  proof
    assume "?n = length s"
    then have "takeWhile isDigit s = s"
      by (metis takeWhile_eq_take take_all order_refl)
    then show "\<forall>c\<in>set s. isDigit c" by simp
  next
    assume "\<forall>c\<in>set s. isDigit c"
    then have "takeWhile isDigit s = s" by simp
    then show "?n = length s" by (rule arg_cong)
  qed
  finally show ?thesis .
qed

lemma matchHere_digitsOnly_later:
  "\<not> matchHere digitsOnly False s"
  by (simp add: digitsOnly_def)

lemma test_digitsOnly:
  "test digitsOnly s \<longleftrightarrow> s \<noteq> [] \<and> (\<forall>c\<in>set s. isDigit c)"
proof -
  have "test digitsOnly s \<longleftrightarrow> matchHere digitsOnly True s"
    unfolding test_def list_ex_iff
  proof
    assume "\<exists>i\<in>set [0..<Suc (length s)]. matchHere digitsOnly (i = 0) (drop i s)"
    then obtain i where i: "matchHere digitsOnly (i = 0) (drop i s)" by blast
    show "matchHere digitsOnly True s"
    proof (cases "i = 0")
      case True
      with i show ?thesis by simp
    next
      case False
      with i show ?thesis by (simp add: matchHere_digitsOnly_later)
    qed
  next
    assume "matchHere digitsOnly True s"
    then have "matchHere digitsOnly (0 = (0::nat)) (drop 0 s)" by simp
    moreover have "(0::nat) \<in> set [0..<Suc (length s)]" by simp
    ultimately show "\<exists>i\<in>set [0..<Suc (length s)]. matchHere digitsOnly (i = 0) (drop i s)"
      by blast
  qed
  then show ?thesis by (simp add: matchHere_digitsOnly_start)
qed

lemma isDigit_not_space: "isDigit c \<Longrightarrow> \<not> isWhiteSpace c"
  by (auto simp: isDigit_def isWhiteSpace_def)

lemma isDigit_not_sign: "isDigit c \<Longrightarrow> c \<noteq> CHR ''+'' \<and> c \<noteq> CHR ''-''"
  by (auto simp: isDigit_def)

lemma parseInt10_digits:
  assumes "s \<noteq> []" and "\<forall>c\<in>set s. isDigit c"
  shows "parseInt10 s = toNumber (decimalValue s)"
proof -
  from assms obtain c cs where s: "s = c # cs" and c: "isDigit c"
    by (cases s) auto
  have t: "dropWhile isWhiteSpace s = s"
    using s c by (simp add: isDigit_not_space)
  have z: "takeWhile isDigit s = s"
    using assms(2) by simp
  have sign: "hd s \<noteq> CHR ''+''" "hd s \<noteq> CHR ''-''"
    using s isDigit_not_sign[OF c] by simp_all
  have u: "(if s \<noteq> [] \<and> (hd s = CHR ''+'' \<or> hd s = CHR ''-'') then tl s else s) = s"
    using sign by simp
  show ?thesis
    unfolding parseInt10_def Let_def t u z using sign assms(1) by simp
qed

lemma parseIntSafe_eq:
  "parseIntSafe s =
     (if s \<noteq> [] \<and> (\<forall>c\<in>set s. isDigit c) then Some (toNumber (decimalValue s)) else None)"
  by (simp add: parseIntSafe_def test_digitsOnly parseInt10_digits)




lemma parseIntSafe_None_iff:
  "parseIntSafe s = None \<longleftrightarrow> \<not> (s \<noteq> [] \<and> (\<forall>c\<in>set s. isDigit c))"
  by (simp add: parseIntSafe_eq)


lemma isDigit_value: "isDigit c \<Longrightarrow> 0 \<le> digitValue c \<and> digitValue c \<le> 9"
  by (auto simp: isDigit_def digitValue_def)

lemma decimalValue_nonneg:
  "\<forall>c\<in>set s. isDigit c \<Longrightarrow> 0 \<le> a \<Longrightarrow> 0 \<le> foldl (\<lambda>acc c. 10 * acc + digitValue c) a s"
proof (induction s arbitrary: a)
  case Nil
  then show ?case by simp
next
  case (Cons c cs)
  have "0 \<le> digitValue c" using Cons.prems(1) isDigit_value [of c] by simp
  with Cons.prems(2) have "0 \<le> 10 * a + digitValue c" by simp
  moreover have "\<forall>c\<in>set cs. isDigit c" using Cons.prems(1) by simp
  ultimately have "0 \<le> foldl (\<lambda>acc c. 10 * acc + digitValue c) (10 * a + digitValue c) cs"
    by (rule Cons.IH [rotated])
  then show ?case by simp
qed

lemma decimalValue_ge_0: "\<forall>c\<in>set s. isDigit c \<Longrightarrow> 0 \<le> decimalValue s"
  unfolding decimalValue_def by (rule decimalValue_nonneg) simp_all



lemma parseIntSafe_1: "parseIntSafe ''1'' = Some (Exact 1)"
  by (simp add: parseIntSafe_eq isDigit_def decimalValue_def digitValue_def toNumber_def)


lemma trimStart_no_match:
  "\<forall>w\<in>set ws. w \<noteq> [] \<longrightarrow> hd w \<noteq> c \<Longrightarrow> trimStart ws (c # cs) = c # cs"
proof -
  assume a: "\<forall>w\<in>set ws. w \<noteq> [] \<longrightarrow> hd w \<noteq> c"
  have "find (\<lambda>w. w \<noteq> [] \<and> take (length w) (c # cs) = w) ws = None"
    unfolding find_None_iff
  proof (intro notI)
    assume "\<exists>w. w \<in> set ws \<and> w \<noteq> [] \<and> take (length w) (c # cs) = w"
    then obtain w where w: "w \<in> set ws" "w \<noteq> []" "take (length w) (c # cs) = w" by blast
    from w(2,3) have "hd w = c" by (cases w) auto
    with a w show False by blast
  qed
  then show ?thesis by (simp add: trimStart.simps [of ws "c # cs"])
qed

lemma whiteSpace_starts: "\<forall>w\<in>set strWhiteSpaceChars. w \<noteq> [] \<longrightarrow> \<not> isDigit (hd w)"
  by (simp add: strWhiteSpaceChars_def isDigit_def)

lemma whiteSpace_ends: "\<forall>w\<in>set (map rev strWhiteSpaceChars). w \<noteq> [] \<longrightarrow> \<not> isDigit (hd w)"
  by (simp add: strWhiteSpaceChars_def isDigit_def)

lemma trim_digits:
  assumes "s \<noteq> []" and "\<forall>c\<in>set s. isDigit c"
  shows "trim s = s"
proof -
  from assms obtain c cs where s: "s = c # cs" and c: "isDigit c"
    by (cases s) auto
  have a: "trimStart strWhiteSpaceChars s = s"
    unfolding s using whiteSpace_starts c by (intro trimStart_no_match) blast
  from assms have "rev s \<noteq> []" and "isDigit (hd (rev s))"
    by (simp_all add: hd_rev)
  then obtain d ds where r: "rev s = d # ds" and d: "isDigit d"
    by (cases "rev s") auto
  have "trimStart (map rev strWhiteSpaceChars) (rev s) = rev s"
    unfolding r using whiteSpace_ends d by (intro trimStart_no_match) blast
  with a show ?thesis by (simp add: trim_def)
qed

lemma isDigit_not_radix_letter:
  "isDigit x \<Longrightarrow> x \<notin> set ''bB'' \<and> x \<notin> set ''oO'' \<and> x \<notin> set ''xX''"
  by (auto simp: isDigit_def)

lemma nonDecimal_digits:
  assumes "\<forall>c\<in>set s. isDigit c"
  shows "nonDecimalIntegerLiteral s = None"
proof (cases s)
  case Nil
  then show ?thesis by (simp add: nonDecimalIntegerLiteral_def)
next
  case (Cons c0 r)
  show ?thesis
  proof (cases r)
    case Nil
    with Cons show ?thesis by (simp add: nonDecimalIntegerLiteral_def)
  next
    case (Cons x ds)
    with \<open>s = c0 # r\<close> assms have "isDigit x" by simp
    then have "x \<notin> set ''bB''" "x \<notin> set ''oO''" "x \<notin> set ''xX''"
      using isDigit_not_radix_letter by blast+
    then show ?thesis
      unfolding nonDecimalIntegerLiteral_def \<open>s = c0 # r\<close> Cons by simp
  qed
qed

lemma roundToDouble_of_int: "roundToDouble (of_int v) = toNumber v"
proof -
  have "\<bar>rat_of_int v\<bar> = of_int \<lfloor>\<bar>rat_of_int v\<bar>\<rfloor>"
    by (metis floor_of_int of_int_abs)
  then show ?thesis
    by (simp add: roundToDouble_def Let_def)
qed

lemma strDecimalLiteral_digits:
  assumes "s \<noteq> []" and "\<forall>c\<in>set s. isDigit c"
  shows "strDecimalLiteral s = toNumber (decimalValue s)"
proof -
  from assms obtain c cs where s: "s = c # cs" and c: "isDigit c"
    by (cases s) auto
  have sign: "hd s \<noteq> CHR ''+''" "hd s \<noteq> CHR ''-''"
    using s c by (auto simp: isDigit_def)
  have inf: "s \<noteq> ''Infinity''"
    using s c by (auto simp: isDigit_def)
  have tw: "takeWhile isDigit s = s" "dropWhile isDigit s = []"
    using assms(2) by simp_all
  have u: "strUnsignedDecimalLiteral s = Some (of_int (decimalValue s))"
    unfolding strUnsignedDecimalLiteral_def Let_def tw
    using assms(1) by (simp add: exponentPart_def pow10_def)
  have t: "(if s \<noteq> [] \<and> (hd s = CHR ''+'' \<or> hd s = CHR ''-'') then tl s else s) = s"
    using sign by simp
  show ?thesis
    unfolding strDecimalLiteral_def Let_def t u
    using sign inf by (simp add: roundToDouble_of_int)
qed

lemma Number_digit_string:
  assumes "s \<noteq> []" and "\<forall>c\<in>set s. isDigit c"
  shows "Number s = toNumber (decimalValue s)"
  using assms
  by (simp add: Number_def Let_def trim_digits nonDecimal_digits strDecimalLiteral_digits)

lemma Number_digits:
  "s \<noteq> [] \<Longrightarrow> \<forall>c\<in>set s. isDigit c \<Longrightarrow> decimalValue s \<le> 2 ^ 53 \<Longrightarrow>
   Number s = Exact (decimalValue s)"
  using decimalValue_ge_0 [of s]
  by (simp add: Number_digit_string toNumber_def)

lemma Number_1: "Number ''1'' = Exact 1"
  by code_simp

lemma Number_99: "Number ''99'' = Exact 99"
  by code_simp






lemma deleteLink_unparsed:
  "parseIntSafe s = None \<Longrightarrow>
   deleteLink ctx s db =
     (Inl (GraphQLError (''Cannot delete non-existing link with id '' @ quoted s @ ''.'')), db)"
  by (simp add: deleteLink_def)

lemma postCommentOnLink_unparsed:
  "parseIntSafe s = None \<Longrightarrow>
   postCommentOnLink ctx s body db =
     (Inl (GraphQLError
        (''Cannot post comment on non-existing link with id '' @ quoted s @ ''.'')), db)"
  by (simp add: postCommentOnLink_def)

lemma deleteCommentOnLink_unparsed:
  "parseIntSafe s = None \<Longrightarrow>
   deleteCommentOnLink ctx s db =
     (Inl (GraphQLError
        (''Cannot delete non-existing comment with id '' @ quoted s @ ''.'')), db)"
  by (simp add: deleteCommentOnLink_def)

lemma updateCommentOnLink_unparsed:
  "parseIntSafe s = None \<Longrightarrow>
   updateCommentOnLink ctx s body db =
     (Inl (GraphQLError
        (''Cannot delete non-existing comment with id '' @ quoted s @ ''.'')), db)"
  by (simp add: updateCommentOnLink_def)

section \<open>Printing and reading integers\<close>

lemma digitChar_isDigit: "d < 10 \<Longrightarrow> isDigit (digitChar d)"
proof -
  assume "d < 10"
  then have "d = 0 \<or> d = 1 \<or> d = 2 \<or> d = 3 \<or> d = 4 \<or> d = 5 \<or> d = 6 \<or> d = 7 \<or> d = 8 \<or> d = 9"
    by arith
  moreover have "isDigit (digitChar 0)" "isDigit (digitChar 1)" "isDigit (digitChar 2)"
    "isDigit (digitChar 3)" "isDigit (digitChar 4)" "isDigit (digitChar 5)"
    "isDigit (digitChar 6)" "isDigit (digitChar 7)" "isDigit (digitChar 8)"
    "isDigit (digitChar 9)"
    by code_simp+
  ultimately show ?thesis by blast
qed

lemma digitValue_digitChar: "d < 10 \<Longrightarrow> digitValue (digitChar d) = int d"
  by (simp add: digitValue_def digitChar_def)

lemma decimalValue_snoc: "decimalValue (ds @ [c]) = 10 * decimalValue ds + digitValue c"
  by (simp add: decimalValue_def)

lemma natToString_digits: "natToString n \<noteq> [] \<and> (\<forall>c\<in>set (natToString n). isDigit c)"
proof (induction n rule: natToString.induct)
  case (1 n)
  show ?case
  proof (cases "n < 10")
    case True
    then show ?thesis by (simp add: natToString.simps [of n] digitChar_isDigit)
  next
    case False
    with 1 show ?thesis by (simp add: natToString.simps [of n] digitChar_isDigit)
  qed
qed

lemma decimalValue_natToString: "decimalValue (natToString n) = int n"
proof (induction n rule: natToString.induct)
  case (1 n)
  show ?case
  proof (cases "n < 10")
    case True
    then show ?thesis
      by (simp add: natToString.simps [of n] decimalValue_def digitValue_digitChar)
  next
    case False
    then have "decimalValue (natToString n) =
        10 * decimalValue (natToString (n div 10)) + digitValue (digitChar (n mod 10))"
      by (simp add: natToString.simps [of n] decimalValue_snoc)
    also have "\<dots> = 10 * int (n div 10) + int (n mod 10)"
      using 1 False by (simp add: digitValue_digitChar)
    also have "\<dots> = int n"
      by (simp add: zdiv_int zmod_int)
    finally show ?thesis .
  qed
qed

lemma parseInt10_toString: "parseInt10 (toString i) = toNumber i"
proof (cases "i < 0")
  case False
  then have "parseInt10 (toString i) = toNumber (decimalValue (natToString (nat i)))"
    using natToString_digits [of "nat i"] by (simp add: toString_def parseInt10_digits)
  with False show ?thesis by (simp add: decimalValue_natToString)
next
  case True
  let ?ds = "natToString (nat (- i))"
  have ds: "?ds \<noteq> []" "takeWhile isDigit ?ds = ?ds"
    using natToString_digits [of "nat (- i)"] by simp_all
  have ws: "\<not> isWhiteSpace CHR ''-''"
    by (simp add: isWhiteSpace_def)
  have "parseInt10 (CHR ''-'' # ?ds) = toNumber (- decimalValue ?ds)"
    by (simp add: parseInt10_def Let_def ds ws)
  with True show ?thesis
    by (simp add: toString_def decimalValue_natToString)
qed

lemma toString_0: "toString 0 = ''0''"
  by code_simp

lemma toString_1: "toString 1 = ''1''"
  by code_simp

lemma toString_50: "toString 50 = ''50''"
  by code_simp

lemma toString_60: "toString 60 = ''60''"
  by code_simp

lemma toString_999: "toString 999 = ''999''"
  by code_simp

lemma toString_minus_1: "toString (- 1) = ''-1''"
  by code_simp

section \<open>The authorization header\<close>

lemma split_no_separator: "sep \<notin> set s \<Longrightarrow> split sep s = [s]"
  by (induction s) auto

lemma at_split_no_separator: "sep \<notin> set s \<Longrightarrow> index (split sep s) 1 = Undefined"
  by (simp add: split_no_separator index_def)

lemma split_Bearer_abc: "index (split CHR '' '' ''Bearer abc'') 1 = Defined ''abc''"
  by (simp add: index_def)

lemma split_Bearer_only: "index (split CHR '' '' ''Bearer'') 1 = Undefined"
  by (simp add: index_def)

lemma split_Bearer_blank: "index (split CHR '' '' ''Bearer '') 1 = Defined []"
  by (simp add: index_def)

section \<open>The in-memory client on the sample database\<close>

lemma prisma_mem_simps:
  "link_findMany prisma_mem = mem_link_findMany"
  "link_findUnique prisma_mem = mem_link_findUnique"
  "link_create prisma_mem = mem_link_create"
  "link_delete prisma_mem = mem_link_delete"
  "comment_findUnique prisma_mem = mem_comment_findUnique"
  "comment_create prisma_mem = mem_comment_create"
  "comment_delete prisma_mem = mem_comment_delete"
  "comment_update prisma_mem = mem_comment_update"
  "user_findUnique prisma_mem = mem_user_findUnique"
  by (simp_all add: prisma_mem_def)

lemma prisma_failing_simps:
  "link_findMany (prisma_failing e) = mem_link_findMany"
  "link_findUnique (prisma_failing e) = mem_link_findUnique"
  "link_create (prisma_failing e) = (\<lambda>d u db. (Inl e, db))"
  "link_delete (prisma_failing e) = (\<lambda>k db. (Inl e, db))"
  "comment_findUnique (prisma_failing e) = mem_comment_findUnique"
  "comment_create (prisma_failing e) = (\<lambda>b k db. (Inl e, db))"
  "comment_delete (prisma_failing e) = (\<lambda>k db. (Inl e, db))"
  "comment_update (prisma_failing e) = (\<lambda>k b db. (Inl e, db))"
  "user_findUnique (prisma_failing e) = mem_user_findUnique"
  by (simp_all add: prisma_failing_def prisma_mem_def)

lemma context_simps:
  "prisma mem_context = prisma_mem"
  "prisma (failing_context e) = prisma_failing e"
  by (simp_all add: mem_context_def failing_context_def)

lemma mem_link_1: "mem_link_findUnique (Exact 1) db0 = Inr (Some link1)"
  by (simp add: db0_def link1_def)


lemma mem_delete_link_1:
  "mem_link_delete (Exact 1) db0 = (Inr link1, db0\<lparr>links := [link2], comments := []\<rparr>)"
  by (simp add: db0_def link1_def link2_def comment1_def comment2_def)

lemma mem_findMany_all:
  "link_findMany (prisma mem_context) NoFilter 30 0 db0 = Inr [link1, link2]"
  by (simp add: context_simps prisma_mem_simps mem_link_findMany_def db0_def)





lemma mem_comment_findUnique_not_integer:
  "\<forall>n. k \<noteq> Exact n \<Longrightarrow> mem_comment_findUnique k mdb = Inl invalidKey"
  by (cases k) simp_all


lemma mem_comment_1: "mem_comment_findUnique (Exact 1) db0 = Inr (Some comment1)"
  by (simp add: db0_def comment1_def)

lemma mem_no_comment_99: "mem_comment_findUnique (Exact 99) db0 = Inr None"
  by (simp add: db0_def comment1_def comment2_def)



lemma mem_user_1: "user_findUnique prisma_mem (Defined (Exact 1)) db1 = Inr (Some user1)"
  by (simp add: prisma_mem_simps db1_def user1_def)

section \<open>The claims\<close>

text \<open>
  C1: \<open>linkFeed\<close>, with \<open>t\<close> the take argument or 30 when it is left out and \<open>k\<close> the skip
  argument or 0 when it is left out. When \<open>t\<close> is outside 1..50 the resolver rejects with
  a \<open>GraphQLError\<close> whose message names \<open>take\<close>, the value \<open>t\<close> and the bounds 1 and 50; when
  \<open>t\<close> is in range and \<open>k\<close> is outside 0..50 it rejects with the message that names
  \<open>skip\<close>, the value \<open>k\<close> and the bounds 0 and 50; in both cases no list is returned. When
  both are in range the result is that of the store's \<open>findMany\<close> called with \<open>t\<close> and \<open>k\<close>
  themselves. The value printed in a message reads back as the number it prints.
\<close>

theorem linkFeed_pagination_bounds:
  assumes "t = nullish (takeArg args) 30" and "k = nullish (skipArg args) 0"
  shows
    "(t < 1 \<or> 50 < t \<longrightarrow>
        linkFeed ctx args db =
          Inl (GraphQLError
            (quoted ''take'' @ '' argument value '' @ quoted (toString t)
              @ '' is outside the valud range of 1 to 50'')))
     \<and> (1 \<le> t \<and> t \<le> 50 \<and> (k < 0 \<or> 50 < k) \<longrightarrow>
        linkFeed ctx args db =
          Inl (GraphQLError
            (quoted ''skip'' @ '' argument value '' @ quoted (toString k)
              @ '' is outside the valud range of 0 to 50'')))
     \<and> (1 \<le> t \<and> t \<le> 50 \<and> 0 \<le> k \<and> k \<le> 50 \<longrightarrow>
        linkFeed ctx args db = link_findMany (prisma ctx) (linkFeedWhere args) t k db)
     \<and> parseInt10 (toString t) = toNumber t \<and> parseInt10 (toString k) = toNumber k"
proof (intro conjI impI)
  assume "t < 1 \<or> 50 < t"
  then have "applyTakeConstraints 1 50 t =
      Inl (GraphQLError
        (quoted ''take'' @ '' argument value '' @ quoted (toString t)
          @ '' is outside the valud range of 1 to 50''))"
    unfolding applyTakeConstraints_def toString_1 toString_50 by auto
  then show "linkFeed ctx args db =
      Inl (GraphQLError
        (quoted ''take'' @ '' argument value '' @ quoted (toString t)
          @ '' is outside the valud range of 1 to 50''))"
    unfolding linkFeed_def assms(1) [symmetric] by simp
next
  assume a: "1 \<le> t \<and> t \<le> 50 \<and> (k < 0 \<or> 50 < k)"
  then have tk: "applyTakeConstraints 1 50 t = Inr t"
    by (simp add: applyTakeConstraints_def)
  from a have "applySkipConstraints 0 50 k =
      Inl (GraphQLError
        (quoted ''skip'' @ '' argument value '' @ quoted (toString k)
          @ '' is outside the valud range of 0 to 50''))"
    unfolding applySkipConstraints_def toString_0 toString_50 by auto
  with tk show "linkFeed ctx args db =
      Inl (GraphQLError
        (quoted ''skip'' @ '' argument value '' @ quoted (toString k)
          @ '' is outside the valud range of 0 to 50''))"
    unfolding linkFeed_def assms [symmetric] by simp
next
  assume a: "1 \<le> t \<and> t \<le> 50 \<and> 0 \<le> k \<and> k \<le> 50"
  then have "applyTakeConstraints 1 50 t = Inr t" and "applySkipConstraints 0 50 k = Inr k"
    by (simp_all add: applyTakeConstraints_def applySkipConstraints_def)
  then show "linkFeed ctx args db = link_findMany (prisma ctx) (linkFeedWhere args) t k db"
    unfolding linkFeed_def assms [symmetric] by simp
next
  show "parseInt10 (toString t) = toNumber t" by (rule parseInt10_toString)
  show "parseInt10 (toString k) = toNumber k" by (rule parseInt10_toString)
qed

theorem linkFeed_pagination_bounds_witness:
  "linkFeed mem_context \<lparr>filterNeedle = None, skipArg = None, takeArg = Some 999\<rparr> db0 =
     Inl (GraphQLError
       (quoted ''take'' @ '' argument value '' @ quoted ''999''
         @ '' is outside the valud range of 1 to 50''))
   \<and> linkFeed mem_context \<lparr>filterNeedle = None, skipArg = Some 60, takeArg = Some 10\<rparr> db0 =
     Inl (GraphQLError
       (quoted ''skip'' @ '' argument value '' @ quoted ''60''
         @ '' is outside the valud range of 0 to 50''))
   \<and> linkFeed mem_context \<lparr>filterNeedle = None, skipArg = None, takeArg = None\<rparr> db0 =
     Inr [link1, link2]"
proof -
  let ?a = "\<lparr>filterNeedle = None, skipArg = None, takeArg = Some 999\<rparr>"
  let ?b = "\<lparr>filterNeedle = None, skipArg = Some 60, takeArg = Some 10\<rparr>"
  let ?c = "\<lparr>filterNeedle = None, skipArg = None, takeArg = None\<rparr>"
  have a: "(999::int) = nullish (takeArg ?a) 30" "(0::int) = nullish (skipArg ?a) 0"
    by (simp_all add: nullish_def)
  have b: "(10::int) = nullish (takeArg ?b) 30" "(60::int) = nullish (skipArg ?b) 0"
    by (simp_all add: nullish_def)
  have c: "(30::int) = nullish (takeArg ?c) 30" "(0::int) = nullish (skipArg ?c) 0"
    by (simp_all add: nullish_def)
  have w: "linkFeedWhere ?c = NoFilter"
    by (simp add: linkFeedWhere_def)
  have c1: "linkFeed mem_context ?a db0 =
     Inl (GraphQLError
       (quoted ''take'' @ '' argument value '' @ quoted ''999''
         @ '' is outside the valud range of 1 to 50''))"
    using linkFeed_pagination_bounds [OF a, of mem_context db0, THEN conjunct1]
    unfolding toString_999 by simp
  have c2: "linkFeed mem_context ?b db0 =
     Inl (GraphQLError
       (quoted ''skip'' @ '' argument value '' @ quoted ''60''
         @ '' is outside the valud range of 0 to 50''))"
    using linkFeed_pagination_bounds [OF b, of mem_context db0, THEN conjunct2, THEN conjunct1]
    unfolding toString_60 by simp
  have c3: "linkFeed mem_context ?c db0 = Inr [link1, link2]"
    using linkFeed_pagination_bounds [OF c, of mem_context db0, THEN conjunct2, THEN conjunct2, THEN conjunct1]
    unfolding w mem_findMany_all by simp
  show ?thesis
    by (intro conjI c1 c2 c3)
qed

text \<open>
  C2 has two halves. The half about \<open>comment\<close>: the query returns what the store's unique
  lookup on the Comment table finds at the number \<open>Number(commentId)\<close>, the Comment or
  null. On the in-memory client, when that number is an integer, that is the Comment of
  the table with this id or null; when it is not, the key is rejected as for
  \<open>linkComments\<close>.
\<close>

lemma comment_returns_the_comment:
  "(comment_findUnique (prisma ctx) (Number commentId) db = Inr (Some c) \<longrightarrow>
      comment ctx commentId db = Inr (Some c)
      \<and> executeQuery ctx (Field_comment commentId) db = Inr (CommentOrNull (Some c)))
   \<and> (comment_findUnique (prisma ctx) (Number commentId) db = Inr None \<longrightarrow>
      comment ctx commentId db = Inr None
      \<and> executeQuery ctx (Field_comment commentId) db = Inr (CommentOrNull None))
   \<and> (commentId \<noteq> [] \<and> (\<forall>c\<in>set commentId. isDigit c) \<and> decimalValue commentId \<le> 2 ^ 53 \<longrightarrow>
      comment mem_context commentId mdb =
        Inr (find (\<lambda>c. Comment_id c = decimalValue commentId) (comments mdb)))
   \<and> (Number commentId = Exact n \<longrightarrow>
      comment mem_context commentId mdb = Inr (find (\<lambda>c. Comment_id c = n) (comments mdb)))
   \<and> ((\<forall>n. Number commentId \<noteq> Exact n) \<longrightarrow>
      comment mem_context commentId mdb = Inl invalidKey)"
  by (simp add: comment_def executeQuery_def context_simps prisma_mem_simps Number_digits
      mem_comment_findUnique_not_integer)

lemma comment_returns_the_comment_witness:
  "comment mem_context ''1'' db0 = Inr (Some comment1)
   \<and> comment mem_context ''99'' db0 = Inr None"
proof -
  have a: "comment_findUnique (prisma mem_context) (Number ''1'') db0 = Inr (Some comment1)"
    unfolding Number_1 context_simps prisma_mem_simps by (rule mem_comment_1)
  have b: "comment_findUnique (prisma mem_context) (Number ''99'') db0 = Inr None"
    unfolding Number_99 context_simps prisma_mem_simps by (rule mem_no_comment_99)
  show ?thesis
    using comment_returns_the_comment [of mem_context "''1''" db0 comment1 db0,
        THEN conjunct1, THEN mp, OF a, THEN conjunct1]
      comment_returns_the_comment [of mem_context "''99''" db0 comment1 db0,
        THEN conjunct2, THEN conjunct1, THEN mp, OF b, THEN conjunct1]
    by (intro conjI)
qed

text \<open>
  C2, the half about \<open>link\<close>: the schema declares the query, but no resolver is
  registered for it, so it resolves to null for every id and never looks a Link up. On a
  database that holds Link 1 (the store's lookup finds it, and \<open>linkComments\<close> returns it
  for the same id), the query \<open>link\<close> with id "1" is null.
\<close>

theorem executeQuery_link_is_null:
  "link_findUnique (prisma mem_context) (Number ''1'') db0 = Inr (Some link1)
   \<and> executeQuery mem_context (Field_link ''1'') db0 = Inr (LinkOrNull None)
   \<and> executeQuery mem_context (Field_linkComments ''1'') db0 = Inr (LinkOrNull (Some link1))"
  by code_simp

lemma executeQuery_link: "executeQuery ctx (Field_link linkId) db = Inr (LinkOrNull None)"
  by (simp add: executeQuery_def)

text \<open>
  C3: when the id argument is not a run of one or more decimal digits (in particular when
  it is not numeric), \<open>deleteLink\<close>, \<open>postCommentOnLink\<close>, \<open>deleteCommentOnLink\<close> and
  \<open>updateCommentOnLink\<close> each reject with a \<open>GraphQLError\<close> that says the link or comment
  with that id is non-existing, whatever the client is, and the store is the one they
  were given: no write has happened.
\<close>

theorem mutations_reject_non_numeric_id:
  assumes "\<not> (s \<noteq> [] \<and> (\<forall>c\<in>set s. isDigit c))"
  shows
    "deleteLink ctx s db =
       (Inl (GraphQLError (''Cannot delete non-existing link with id '' @ quoted s @ ''.'')), db)
     \<and> postCommentOnLink ctx s body db =
       (Inl (GraphQLError
          (''Cannot post comment on non-existing link with id '' @ quoted s @ ''.'')), db)
     \<and> deleteCommentOnLink ctx s db =
       (Inl (GraphQLError
          (''Cannot delete non-existing comment with id '' @ quoted s @ ''.'')), db)
     \<and> updateCommentOnLink ctx s body db =
       (Inl (GraphQLError
          (''Cannot delete non-existing comment with id '' @ quoted s @ ''.'')), db)"
proof -
  have n: "parseIntSafe s = None"
    using assms by (simp add: parseIntSafe_None_iff)
  show ?thesis
    by (intro conjI deleteLink_unparsed postCommentOnLink_unparsed
        deleteCommentOnLink_unparsed updateCommentOnLink_unparsed n)
qed

theorem mutations_reject_non_numeric_id_witness:
  "deleteLink mem_context ''abc'' db0 =
       (Inl (GraphQLError (''Cannot delete non-existing link with id '' @ quoted ''abc'' @ ''.'')),
        db0)
     \<and> postCommentOnLink mem_context ''abc'' ''hello'' db0 =
       (Inl (GraphQLError
          (''Cannot post comment on non-existing link with id '' @ quoted ''abc'' @ ''.'')), db0)
     \<and> deleteCommentOnLink mem_context ''abc'' db0 =
       (Inl (GraphQLError
          (''Cannot delete non-existing comment with id '' @ quoted ''abc'' @ ''.'')), db0)
     \<and> updateCommentOnLink mem_context ''abc'' ''hello'' db0 =
       (Inl (GraphQLError
          (''Cannot delete non-existing comment with id '' @ quoted ''abc'' @ ''.'')), db0)"
proof -
  have "\<not> (''abc'' \<noteq> [] \<and> (\<forall>c\<in>set ''abc''. isDigit c))"
    by (simp add: isDigit_def)
  then show ?thesis
    by (rule mutations_reject_non_numeric_id)
qed

text \<open>
  C4: \<open>postLink\<close>. When the description or the url is the empty string, the mutation
  rejects with the \<open>GraphQLError\<close> "All fields are required." and the store is unchanged:
  no Link has been created. When both are non-empty, the result is that of the store's
  \<open>create\<close> called with this description and this url; on the in-memory client that is a
  new Link with the next id, this description and this url, added to the table and
  returned.
\<close>

theorem postLink_required_fields:
  "(description = [] \<or> url = [] \<longrightarrow>
      postLink ctx description url db =
        (Inl (GraphQLError (no_entry_sign @ '' All fields are required.'')), db))
   \<and> (description \<noteq> [] \<and> url \<noteq> [] \<longrightarrow>
      postLink ctx description url db = link_create (prisma ctx) description url db
      \<and> postLink mem_context description url mdb =
          (Inr \<lparr>Link_id = nextLinkId mdb, Link_createdAt = clock mdb,
                 Link_description = description, Link_url = url, Link_postedById = None\<rparr>,
           mdb\<lparr>links := links mdb @
                  [\<lparr>Link_id = nextLinkId mdb, Link_createdAt = clock mdb,
                    Link_description = description, Link_url = url, Link_postedById = None\<rparr>],
                nextLinkId := nextLinkId mdb + 1, clock := clock mdb + 1\<rparr>))"
  by (simp add: postLink_def context_simps prisma_mem_simps mem_link_create_def Let_def)

theorem postLink_required_fields_witness:
  "postLink mem_context '''' ''http://x'' db0 =
     (Inl (GraphQLError (no_entry_sign @ '' All fields are required.'')), db0)
   \<and> postLink mem_context ''test'' '''' db0 =
     (Inl (GraphQLError (no_entry_sign @ '' All fields are required.'')), db0)
   \<and> postLink mem_context ''test'' ''http://x'' db0 =
     (Inr \<lparr>Link_id = 3, Link_createdAt = 2, Link_description = ''test'',
            Link_url = ''http://x'', Link_postedById = None\<rparr>,
      db0\<lparr>links := [link1, link2,
               \<lparr>Link_id = 3, Link_createdAt = 2, Link_description = ''test'',
                 Link_url = ''http://x'', Link_postedById = None\<rparr>],
            nextLinkId := 4, clock := 3\<rparr>)"
proof -
  have c1: "postLink mem_context '''' ''http://x'' db0 =
     (Inl (GraphQLError (no_entry_sign @ '' All fields are required.'')), db0)"
    using postLink_required_fields [of "''''" "''http://x''" mem_context db0 db0, THEN conjunct1]
    by simp
  have c2: "postLink mem_context ''test'' '''' db0 =
     (Inl (GraphQLError (no_entry_sign @ '' All fields are required.'')), db0)"
    using postLink_required_fields [of "''test''" "''''" mem_context db0 db0, THEN conjunct1]
    by simp
  have nonempty: "''test'' \<noteq> [] \<and> ''http://x'' \<noteq> []"
    by simp
  have c3: "postLink mem_context ''test'' ''http://x'' db0 =
     (Inr \<lparr>Link_id = 3, Link_createdAt = 2, Link_description = ''test'',
            Link_url = ''http://x'', Link_postedById = None\<rparr>,
      db0\<lparr>links := [link1, link2,
               \<lparr>Link_id = 3, Link_createdAt = 2, Link_description = ''test'',
                 Link_url = ''http://x'', Link_postedById = None\<rparr>],
            nextLinkId := 4, clock := 3\<rparr>)"
    using postLink_required_fields [of "''test''" "''http://x''" mem_context db0 db0,
        THEN conjunct2, THEN mp, OF nonempty, THEN conjunct2]
    by (simp add: db0_def)
  show ?thesis
    by (intro conjI c1 c2 c3)
qed



text \<open>
  C6: \<open>deleteLink\<close> on an id that parses and whose Link the store finds. When the store's
  delete rejects with the foreign-key violation \<open>P2003\<close>, the mutation rejects with its own
  "Cannot delete ..." \<open>GraphQLError\<close> in place of the store's error; when the delete
  rejects with any other error, the mutation rejects with that same error; when the delete
  succeeds, the deleted Link is the result.
\<close>

theorem deleteLink_store_outcomes:
  assumes "parseIntSafe ident = Some n"
    and "link_findUnique (prisma ctx) n db = Inr (Some l)"
  shows
    "(link_delete (prisma ctx) n db = (Inl (PrismaClientKnownRequestError ''P2003'' m), db') \<longrightarrow>
        deleteLink ctx ident db =
          (Inl (GraphQLError
             (''Cannot delete non-existing link with id '' @ quoted ident @ ''.'')), db'))
     \<and> (link_delete (prisma ctx) n db = (Inl e, db')
          \<and> (\<forall>m. e \<noteq> PrismaClientKnownRequestError ''P2003'' m) \<longrightarrow>
        deleteLink ctx ident db = (Inl e, db'))
     \<and> (link_delete (prisma ctx) n db = (Inr deleted, db') \<longrightarrow>
        deleteLink ctx ident db = (Inr deleted, db'))"
proof (intro conjI impI)
  assume "link_delete (prisma ctx) n db = (Inl (PrismaClientKnownRequestError ''P2003'' m), db')"
  with assms show "deleteLink ctx ident db =
      (Inl (GraphQLError (''Cannot delete non-existing link with id '' @ quoted ident @ ''.'')),
       db')"
    by (simp add: deleteLink_def)
next
  assume a: "link_delete (prisma ctx) n db = (Inl e, db')
    \<and> (\<forall>m. e \<noteq> PrismaClientKnownRequestError ''P2003'' m)"
  then have "catchP2003 (''Cannot delete non-existing link with id '' @ quoted ident @ ''.'') e = e"
    by (cases e) auto
  with a assms show "deleteLink ctx ident db = (Inl e, db')"
    by (simp add: deleteLink_def)
next
  assume "link_delete (prisma ctx) n db = (Inr deleted, db')"
  with assms show "deleteLink ctx ident db = (Inr deleted, db')"
    by (simp add: deleteLink_def)
qed

theorem deleteLink_store_outcomes_witness:
  "deleteLink (failing_context foreignKeyFailed) ''1'' db0 =
     (Inl (GraphQLError (''Cannot delete non-existing link with id '' @ quoted ''1'' @ ''.'')),
      db0)
   \<and> deleteLink (failing_context (OtherError ''connection lost'')) ''1'' db0 =
     (Inl (OtherError ''connection lost''), db0)
   \<and> deleteLink (failing_context recordNotFound) ''1'' db0 = (Inl recordNotFound, db0)
   \<and> deleteLink mem_context ''1'' db0 = (Inr link1, db0\<lparr>links := [link2], comments := []\<rparr>)"
proof -
  have f: "link_findUnique (prisma (failing_context e)) (Exact 1) db0 = Inr (Some link1)" for e
    unfolding context_simps prisma_failing_simps by (rule mem_link_1)
  have g: "link_findUnique (prisma mem_context) (Exact 1) db0 = Inr (Some link1)"
    unfolding context_simps prisma_mem_simps by (rule mem_link_1)
  have d: "link_delete (prisma (failing_context e)) (Exact 1) db0 = (Inl e, db0)" for e
    by (simp add: context_simps prisma_failing_simps)
  have c1: "deleteLink (failing_context foreignKeyFailed) ''1'' db0 =
     (Inl (GraphQLError (''Cannot delete non-existing link with id '' @ quoted ''1'' @ ''.'')),
      db0)"
    using deleteLink_store_outcomes [OF parseIntSafe_1 f, THEN conjunct1, THEN mp]
      d [of foreignKeyFailed] unfolding foreignKeyFailed_def by blast
  have c2: "deleteLink (failing_context (OtherError ''connection lost'')) ''1'' db0 =
     (Inl (OtherError ''connection lost''), db0)"
    using deleteLink_store_outcomes [OF parseIntSafe_1 f, THEN conjunct2, THEN conjunct1, THEN mp,
      of "OtherError ''connection lost''" "OtherError ''connection lost''" db0] d
    by simp
  have c3: "deleteLink (failing_context recordNotFound) ''1'' db0 = (Inl recordNotFound, db0)"
    using deleteLink_store_outcomes [OF parseIntSafe_1 f, THEN conjunct2, THEN conjunct1, THEN mp,
      of recordNotFound recordNotFound db0] d
    by (simp add: recordNotFound_def)
  have c4: "deleteLink mem_context ''1'' db0 =
      (Inr link1, db0\<lparr>links := [link2], comments := []\<rparr>)"
    using deleteLink_store_outcomes [OF parseIntSafe_1 g, THEN conjunct2, THEN conjunct2, THEN mp,
      of link1 "db0\<lparr>links := [link2], comments := []\<rparr>"]
    unfolding context_simps prisma_mem_simps using mem_delete_link_1 by blast
  show ?thesis
    by (intro conjI c1 c2 c3 c4)
qed






text \<open>
  C8, as the claim states it, fails: with a header that carries a token and a \<open>verify\<close>
  that rejects the token, \<open>authenticateUser\<close> rejects with the error of \<open>verify\<close>; the
  result is not a null user.
\<close>

theorem authenticateUser_throws_on_bad_token:
  "authenticateUser verify_rejecting prisma_mem (requestWith (Defined ''Bearer abc'')) db1 =
     Inl (JsonWebTokenError ''invalid signature'')
   \<and> authenticateUser verify_rejecting prisma_mem (requestWith (Defined ''Bearer abc'')) db1 \<noteq>
     Inr None"
  by code_simp

text \<open>
  C8, amended: \<open>authenticateUser\<close> returns a null user, and does not call \<open>verify\<close>, when the
  Authorization header is missing, or has no space in it, or has nothing between its
  first space and the next. With any other header it verifies the text after the first
  space: when \<open>verify\<close> throws, \<open>authenticateUser\<close> rejects with that same error; when
  \<open>verify\<close> returns a payload, the result is the store's lookup of the payload's user id.
  The variant whose body is commented out returns a null user for every request.
\<close>

theorem authenticateUser_outcomes:
  "(authorization (headers request) = Undefined \<or> authorization (headers request) = Null \<longrightarrow>
      authenticateUser verify client request db = Inr None)
   \<and> (authorization (headers request) = Defined h \<and>
        (CHR '' '' \<notin> set h \<or> index (split CHR '' '' h) 1 = Undefined
          \<or> index (split CHR '' '' h) 1 = Defined []) \<longrightarrow>
      authenticateUser verify client request db = Inr None)
   \<and> (authorization (headers request) = Defined h \<and> index (split CHR '' '' h) 1 = Defined token
        \<and> token \<noteq> [] \<longrightarrow>
      (verify token APP_SECRET = Inl e \<longrightarrow>
         authenticateUser verify client request db = Inl e)
      \<and> (verify token APP_SECRET = Inr payload \<longrightarrow>
         authenticateUser verify client request db =
           user_findUnique client (userId payload) db))
   \<and> authenticateUser_stub client request db = Inr None"
proof (intro conjI impI)
  assume "authorization (headers request) = Undefined \<or> authorization (headers request) = Null"
  then show "authenticateUser verify client request db = Inr None"
    by (auto simp: authenticateUser_def)
next
  assume a: "authorization (headers request) = Defined h \<and>
    (CHR '' '' \<notin> set h \<or> index (split CHR '' '' h) 1 = Undefined
      \<or> index (split CHR '' '' h) 1 = Defined [])"
  then have "index (split CHR '' '' h) 1 = Undefined \<or> index (split CHR '' '' h) 1 = Defined []"
    using at_split_no_separator [of "CHR '' ''" h] by blast
  with a show "authenticateUser verify client request db = Inr None"
    by (auto simp: authenticateUser_def)
next
  assume a: "authorization (headers request) = Defined h
    \<and> index (split CHR '' '' h) 1 = Defined token \<and> token \<noteq> []"
  {
    assume "verify token APP_SECRET = Inl e"
    with a show "authenticateUser verify client request db = Inl e"
      by (simp add: authenticateUser_def)
  }
  {
    assume "verify token APP_SECRET = Inr payload"
    with a show "authenticateUser verify client request db =
        user_findUnique client (userId payload) db"
      by (simp add: authenticateUser_def)
  }
next
  show "authenticateUser_stub client request db = Inr None"
    by (simp add: authenticateUser_stub_def)
qed

theorem authenticateUser_outcomes_witness:
  "authenticateUser verify_rejecting prisma_mem (requestWith Undefined) db1 = Inr None
   \<and> authenticateUser verify_rejecting prisma_mem (requestWith (Defined ''Bearer'')) db1 = Inr None
   \<and> authenticateUser verify_rejecting prisma_mem (requestWith (Defined ''Bearer '')) db1 = Inr None
   \<and> authenticateUser verify_rejecting prisma_mem (requestWith (Defined ''Bearer abc'')) db1 =
       Inl (JsonWebTokenError ''invalid signature'')
   \<and> authenticateUser verify_accepting prisma_mem (requestWith (Defined ''Bearer abc'')) db1 =
       Inr (Some user1)
   \<and> authenticateUser_stub prisma_mem (requestWith (Defined ''Bearer abc'')) db1 = Inr None"
proof -
  have h0: "authorization (headers (requestWith Undefined)) = Undefined
      \<or> authorization (headers (requestWith Undefined)) = Null"
    by (simp add: requestWith_def)
  have h1: "authorization (headers (requestWith (Defined ''Bearer''))) = Defined ''Bearer'' \<and>
      (CHR '' '' \<notin> set ''Bearer'' \<or> index (split CHR '' '' ''Bearer'') 1 = Undefined
        \<or> index (split CHR '' '' ''Bearer'') 1 = Defined [])"
    by (simp add: requestWith_def)
  have h2: "authorization (headers (requestWith (Defined ''Bearer ''))) = Defined ''Bearer '' \<and>
      (CHR '' '' \<notin> set ''Bearer '' \<or> index (split CHR '' '' ''Bearer '') 1 = Undefined
        \<or> index (split CHR '' '' ''Bearer '') 1 = Defined [])"
    using split_Bearer_blank by (simp add: requestWith_def)
  have h3: "authorization (headers (requestWith (Defined ''Bearer abc''))) = Defined ''Bearer abc''
      \<and> index (split CHR '' '' ''Bearer abc'') 1 = Defined ''abc'' \<and> ''abc'' \<noteq> []"
    using split_Bearer_abc by (simp add: requestWith_def)
  have r: "verify_rejecting ''abc'' APP_SECRET = Inl (JsonWebTokenError ''invalid signature'')"
    by (simp add: verify_rejecting_def)
  have a: "verify_accepting ''abc'' APP_SECRET = Inr \<lparr>userId = Defined (Exact 1)\<rparr>"
    by (simp add: verify_accepting_def)
  note rejecting = authenticateUser_outcomes
    [where verify = verify_rejecting and client = prisma_mem and db = db1]
  note accepting = authenticateUser_outcomes
    [where verify = verify_accepting and client = prisma_mem and db = db1]
  have c1: "authenticateUser verify_rejecting prisma_mem (requestWith Undefined) db1 = Inr None"
    by (rule rejecting [THEN conjunct1, THEN mp, OF h0])
  have c2: "authenticateUser verify_rejecting prisma_mem (requestWith (Defined ''Bearer'')) db1
      = Inr None"
    by (rule rejecting [THEN conjunct2, THEN conjunct1, THEN mp, OF h1])
  have c3: "authenticateUser verify_rejecting prisma_mem (requestWith (Defined ''Bearer '')) db1
      = Inr None"
    by (rule rejecting [THEN conjunct2, THEN conjunct1, THEN mp, OF h2])
  have c4: "authenticateUser verify_rejecting prisma_mem (requestWith (Defined ''Bearer abc'')) db1
      = Inl (JsonWebTokenError ''invalid signature'')"
    by (rule rejecting [THEN conjunct2, THEN conjunct2, THEN conjunct1, THEN mp,
          OF h3, THEN conjunct1, THEN mp, OF r])
  have c5: "authenticateUser verify_accepting prisma_mem (requestWith (Defined ''Bearer abc'')) db1
      = Inr (Some user1)"
    using accepting [THEN conjunct2, THEN conjunct2, THEN conjunct1, THEN mp,
          OF h3, THEN conjunct2, THEN mp, OF a]
    by (simp add: mem_user_1)
  have c6: "authenticateUser_stub prisma_mem (requestWith (Defined ''Bearer abc'')) db1 = Inr None"
    by (rule rejecting [THEN conjunct2, THEN conjunct2, THEN conjunct2])
  show ?thesis
    by (intro conjI c1 c2 c3 c4 c5 c6)
qed






end
